theory Spec2Isabelle
  imports Main "HOL-Library.Sublist"
begin

section \<open>Asset Localization Checker: data model\<close>

text \<open>
  The component \<^verbatim>\<open>AssetLocalizationChecker\<close> of
  \<^verbatim>\<open>src/components/AssetLocalizationChecker.tsx\<close> reads the host context, the asset
  fetched from the content management API, and derives from them what it shows. Values of
  type \<^verbatim>\<open>string | null\<close> (or possibly \<^verbatim>\<open>undefined\<close>) are \<open>string option\<close>, with
  \<open>None\<close> for both \<^verbatim>\<open>null\<close> and \<^verbatim>\<open>undefined\<close>: the code never tells the two apart.
\<close>

text \<open>
  JavaScript truthiness of a \<^verbatim>\<open>string | null | undefined\<close>: what \<^verbatim>\<open>!x\<close>, \<^verbatim>\<open>!!x\<close>,
  \<^verbatim>\<open>x && ...\<close> and \<^verbatim>\<open>x || ...\<close> test. The empty string is falsy.
\<close>

definition truthy :: "string option \<Rightarrow> bool" where
  "truthy x = (case x of None \<Rightarrow> False | Some s \<Rightarrow> s \<noteq> [])"

text \<open>
  Nullish coalescing \<^verbatim>\<open>a ?? b\<close>: the right operand is taken only when the left one is
  \<^verbatim>\<open>null\<close> or \<^verbatim>\<open>undefined\<close>; an empty string on the left is kept.
\<close>

definition nullish :: "'a option \<Rightarrow> 'a option \<Rightarrow> 'a option" where
  "nullish a b = (case a of None \<Rightarrow> b | Some v \<Rightarrow> Some v)"

definition nullish_or :: "'a option \<Rightarrow> 'a \<Rightarrow> 'a" where
  "nullish_or a d = (case a of None \<Rightarrow> d | Some v \<Rightarrow> v)"

text \<open>
  The value type of \<^verbatim>\<open>MetadataByLocale\<close>, \<^verbatim>\<open>{alt: string | null; title: string | null}\<close>.
  An entry of the asset's \<^verbatim>\<open>default_field_metadata\<close> is read through \<^verbatim>\<open>alt\<close> and
  \<^verbatim>\<open>title\<close> only, so it has the same shape here.
\<close>

record alt_title =
  alt :: "string option"
  title :: "string option"

text \<open>
  \<^verbatim>\<open>FileFieldValue\<close>, the value of the file field the plugin is attached to: the
  field-level \<^verbatim>\<open>alt\<close> and \<^verbatim>\<open>title\<close> and the identifier of the asset.
\<close>

record file_field_value = alt_title +
  upload_id :: string

text \<open>
  \<^verbatim>\<open>Upload\<close>, the asset returned by \<^verbatim>\<open>client.uploads.find\<close>. The code reads
  \<^verbatim>\<open>default_field_metadata\<close> (an object keyed by locale code, guarded by \<^verbatim>\<open>?? null\<close>)
  and \<^verbatim>\<open>filename\<close>.
\<close>

record upload =
  default_field_metadata :: "(string \<rightharpoonup> alt_title) option"
  filename :: "string option"

text \<open>\<^verbatim>\<open>AltTitleValidators\<close>: \<^verbatim>\<open>required_alt_title?: {title: boolean; alt: boolean}\<close>.\<close>

record required_flags =
  title_required :: bool
  alt_required :: bool

record alt_title_validators =
  required_alt_title :: "required_flags option"

text \<open>
  The part of \<^verbatim>\<open>RenderFieldExtensionCtx\<close> that the component destructures.
  \<open>imageField\<close> is \<^verbatim>\<open>formValues[fieldPath]\<close>; \<open>internalLocales\<close> is
  \<^verbatim>\<open>formValues?.internalLocales\<close>; \<open>currentLocale\<close> is the context's \<^verbatim>\<open>locale\<close>;
  \<open>localized\<close> is the field attribute the code names \<^verbatim>\<open>isFieldLocalized\<close>.

  The cast \<^verbatim>\<open>as FileFieldValue\<close> checks nothing. As the host provides the context
  (\<open>host_ctx\<close>), \<^verbatim>\<open>formValues[fieldPath]\<close> is \<^verbatim>\<open>null\<close> for a file field that holds no
  file and \<^verbatim>\<open>undefined\<close> when \<^verbatim>\<open>fieldPath\<close> is not a key of \<^verbatim>\<open>formValues\<close> (the
  dotted path of a localized field), here \<open>None\<close>. Everything below line 73 works with a
  field value that has been destructured (\<open>ctx\<close>).
\<close>

record 'v render_ctx =
  imageField :: 'v
  internalLocales :: "string list option"
  fieldPath :: string
  currentUserAccessToken :: "string option"
  label :: string
  validators :: alt_title_validators
  localized :: bool
  environment :: "string option"
  currentLocale :: string

type_synonym host_ctx = "file_field_value option render_ctx"

type_synonym ctx = "file_field_value render_ctx"

text \<open>
  What React keeps for the component between renders: the two \<^verbatim>\<open>useState\<close> cells, and
  the dependency \<^verbatim>\<open>[upload_id]\<close> the fetch effect last ran for.
\<close>

record comp_state =
  assetData :: "upload option"
  siteLocales :: "string list"
  fetchDep :: string

section \<open>Derived values\<close>

definition fieldLevelAlt :: "ctx \<Rightarrow> string option" where
  "fieldLevelAlt c = alt (imageField c)"

definition fieldLevelTitle :: "ctx \<Rightarrow> string option" where
  "fieldLevelTitle c = title (imageField c)"

text \<open>\<^verbatim>\<open>const metadata = assetData?.default_field_metadata ?? null\<close>\<close>

definition metadata :: "comp_state \<Rightarrow> (string \<rightharpoonup> alt_title) option" where
  "metadata st = (case assetData st of None \<Rightarrow> None | Some a \<Rightarrow> default_field_metadata a)"

text \<open>\<^verbatim>\<open>const localesInThisRecord = (formValues?.internalLocales as string[]) ?? null\<close>\<close>

definition localesInThisRecord :: "ctx \<Rightarrow> string list option" where
  "localesInThisRecord c = internalLocales c"

text \<open>\<^verbatim>\<open>!!typedValidators?.required_alt_title?.title\<close> and its sibling for \<^verbatim>\<open>alt\<close>.\<close>

definition isTitleRequired :: "ctx \<Rightarrow> bool" where
  "isTitleRequired c =
     (case required_alt_title (validators c) of None \<Rightarrow> False | Some r \<Rightarrow> title_required r)"

definition isAltRequired :: "ctx \<Rightarrow> bool" where
  "isAltRequired c =
     (case required_alt_title (validators c) of None \<Rightarrow> False | Some r \<Rightarrow> alt_required r)"

text \<open>
  \<^verbatim>\<open>const isReady = assetData && metadata && localesInThisRecord\<close>. An object and an array
  (also an empty one) are truthy, so only absence makes the conjunction falsy.
\<close>

definition isReady :: "ctx \<Rightarrow> comp_state \<Rightarrow> bool" where
  "isReady c st \<longleftrightarrow> assetData st \<noteq> None \<and> metadata st \<noteq> None \<and> localesInThisRecord c \<noteq> None"

text \<open>\<^verbatim>\<open>const defaultLocale = siteLocales[0]\<close>, \<^verbatim>\<open>undefined\<close> for an empty array.\<close>

definition defaultLocale :: "comp_state \<Rightarrow> string option" where
  "defaultLocale st = (case siteLocales st of [] \<Rightarrow> None | l # _ \<Rightarrow> Some l)"

section \<open>Reconciliation: the first memo\<close>

text \<open>
  The object the first \<^verbatim>\<open>useMemo\<close> returns. The \<^verbatim>\<open>Map\<close> is only ever read with
  \<^verbatim>\<open>get\<close>, so it is a partial function; the two arrays keep their order.
\<close>

record metadata_shapes =
  assetLevelMetadataByLocale :: "string \<rightharpoonup> alt_title"
  localesMissingAlts :: "string list"
  localesMissingTitles :: "string list"

text \<open>\<^verbatim>\<open>metadata[locale]?.alt ?? null\<close> and \<^verbatim>\<open>metadata[locale]?.title ?? null\<close>\<close>

definition assetAlt :: "(string \<rightharpoonup> alt_title) \<Rightarrow> string \<Rightarrow> string option" where
  "assetAlt m loc = (case m loc of None \<Rightarrow> None | Some e \<Rightarrow> alt e)"

definition assetTitle :: "(string \<rightharpoonup> alt_title) \<Rightarrow> string \<Rightarrow> string option" where
  "assetTitle m loc = (case m loc of None \<Rightarrow> None | Some e \<Rightarrow> title e)"

text \<open>
  One pass of the body of \<^verbatim>\<open>for (const locale of localesInThisRecord)\<close>:
  \<^verbatim>\<open>_meta.set(locale, {alt, title}); if (!alt) _alt.push(locale); if (!title) _title.push(locale)\<close>.
\<close>

definition loopBody :: "(string \<rightharpoonup> alt_title) \<Rightarrow> metadata_shapes \<Rightarrow> string \<Rightarrow> metadata_shapes" where
  "loopBody m s loc =
     (let a = assetAlt m loc; t = assetTitle m loc in
      \<lparr> assetLevelMetadataByLocale = (assetLevelMetadataByLocale s)(loc \<mapsto> \<lparr>alt = a, title = t\<rparr>),
        localesMissingAlts =
          (if \<not> truthy a then localesMissingAlts s @ [loc] else localesMissingAlts s),
        localesMissingTitles =
          (if \<not> truthy t then localesMissingTitles s @ [loc] else localesMissingTitles s) \<rparr>)"

fun forOf :: "(string \<rightharpoonup> alt_title) \<Rightarrow> metadata_shapes \<Rightarrow> string list \<Rightarrow> metadata_shapes" where
  "forOf m s [] = s"
| "forOf m s (loc # locs) = forOf m (loopBody m s loc) locs"

definition emptyShapes :: metadata_shapes where
  "emptyShapes =
     \<lparr> assetLevelMetadataByLocale = Map.empty, localesMissingAlts = [], localesMissingTitles = [] \<rparr>"

text \<open>
  The memo as a function of its two dependencies: the loop runs only under
  \<^verbatim>\<open>if (metadata && localesInThisRecord)\<close>.
\<close>

definition shapesOf :: "(string \<rightharpoonup> alt_title) option \<Rightarrow> string list option \<Rightarrow> metadata_shapes" where
  "shapesOf md locs =
     (case md of
        None \<Rightarrow> emptyShapes
      | Some m \<Rightarrow> (case locs of None \<Rightarrow> emptyShapes | Some ls \<Rightarrow> forOf m emptyShapes ls))"

definition metadataMemo :: "ctx \<Rightarrow> comp_state \<Rightarrow> metadata_shapes" where
  "metadataMemo c st = shapesOf (metadata st) (localesInThisRecord c)"

section \<open>Reconciliation: the current locale\<close>

text \<open>
  The object the second \<^verbatim>\<open>useMemo\<close> returns, computed from the map of the first one, the
  field-level values and a locale. The memo is modelled as its body run afresh, as it is
  on the first render and whenever its dependencies change.
\<close>

record locale_lookup =
  isMissingAlt :: bool
  isMissingTitle :: bool
  actualAlt :: string
  actualTitle :: string

definition lookupLocale ::
  "(string \<rightharpoonup> alt_title) \<Rightarrow> string option \<Rightarrow> string option \<Rightarrow> string \<Rightarrow> locale_lookup" where
  "lookupLocale byLocale flAlt flTitle loc =
     (case byLocale loc of
        None \<Rightarrow>
          \<lparr> isMissingAlt = \<not> truthy flAlt,
            isMissingTitle = \<not> truthy flTitle,
            actualAlt = nullish_or flAlt [],
            actualTitle = nullish_or flTitle [] \<rparr>
      | Some e \<Rightarrow>
          \<lparr> isMissingAlt = (\<not> truthy flAlt \<and> \<not> truthy (alt e)),
            isMissingTitle = (\<not> truthy flTitle \<and> \<not> truthy (title e)),
            actualAlt = nullish_or (nullish flAlt (alt e)) [],
            actualTitle = nullish_or (nullish flTitle (title e)) [] \<rparr>)"

definition currentLocaleMemo :: "ctx \<Rightarrow> comp_state \<Rightarrow> locale_lookup" where
  "currentLocaleMemo c st =
     lookupLocale (assetLevelMetadataByLocale (metadataMemo c st))
       (fieldLevelAlt c) (fieldLevelTitle c) (currentLocale c)"

section \<open>The earlier, list-based revision\<close>

text \<open>
  The earlier revision of the component kept \<^verbatim>\<open>metadataByLocale\<close> as an array of
  \<^verbatim>\<open>{locale, alt, title}\<close> built with \<^verbatim>\<open>flatMap\<close>, and derived \<^verbatim>\<open>missingAlts\<close> and
  \<^verbatim>\<open>missingTitles\<close> from it with \<^verbatim>\<open>filter\<close>. The field \<^verbatim>\<open>locale\<close> is \<open>locale_code\<close>.
\<close>

record locale_meta = alt_title +
  locale_code :: string

definition metadataByLocale ::
  "(string \<rightharpoonup> alt_title) option \<Rightarrow> string list option \<Rightarrow> locale_meta list" where
  "metadataByLocale md locs =
     (case md of
        None \<Rightarrow> []
      | Some m \<Rightarrow>
          (case locs of
             None \<Rightarrow> []
           | Some ls \<Rightarrow>
               concat (map (\<lambda>loc. [\<lparr>alt = assetAlt m loc, title = assetTitle m loc, locale_code = loc\<rparr>]) ls)))"

definition missingAlts :: "locale_meta list \<Rightarrow> locale_meta list" where
  "missingAlts byLocale = filter (\<lambda>e. \<not> truthy (alt e)) byLocale"

definition missingTitles :: "locale_meta list \<Rightarrow> locale_meta list" where
  "missingTitles byLocale = filter (\<lambda>e. \<not> truthy (title e)) byLocale"

section \<open>What the component renders\<close>

text \<open>
  The rendered tree, reduced to its structure: which sections appear and which list items
  they hold, each item carrying the data the JSX interpolates (a field name such as
  \<^verbatim>\<open>"alt text"\<close>, a value, a locale code). The fixed wording and the display names of
  locales (\<^verbatim>\<open>humanReadableLocale\<close>, a call to \<^verbatim>\<open>Intl.DisplayNames\<close>) belong to the
  presentation.
\<close>

datatype li =
    HasNoRequired string
  | HasNoNotRequired string
  | UsingFieldLevel string string
  | OverridesImage string
  | SetInAsset string "string option" string
  | NotAtAssetLevel string
  | OverrideAlt string
  | OverrideTitle string

datatype section_view =
    CurrentLocale "li list"
  | MissingAltText "li list"
  | MissingTitle "li list"
  | FieldLevelOverrides "li list"

datatype view = TokenError | Loading | Sections "section_view list"

text \<open>The argument object of \<^verbatim>\<open>currentLocaleChecker\<close>; \<open>value_shown\<close> is its \<^verbatim>\<open>value\<close>.\<close>

record checker_args =
  name :: string
  value_shown :: string
  isMissing :: bool
  isRequired :: bool
  isFieldLevel :: bool

text \<open>\<^verbatim>\<open>assetData?.filename\<close> when it is truthy; the item then says \<^verbatim>\<open>"image"\<close> otherwise.\<close>

definition shownFilename :: "comp_state \<Rightarrow> string option" where
  "shownFilename st =
     (case assetData st of
        None \<Rightarrow> None
      | Some a \<Rightarrow> (if truthy (filename a) then filename a else None))"

definition currentLocaleChecker :: "ctx \<Rightarrow> comp_state \<Rightarrow> checker_args \<Rightarrow> li list" where
  "currentLocaleChecker c st a =
     (if isMissing a then
        (if isRequired a then [HasNoRequired (name a)] else [HasNoNotRequired (name a)])
      else if isFieldLevel a then
        UsingFieldLevel (name a) (value_shown a) #
          (if \<not> localized c \<and> Some (currentLocale c) \<noteq> defaultLocale st
           then [OverridesImage (name a)] else [])
      else [SetInAsset (name a) (shownFilename st) (value_shown a)])"

text \<open>The two calls of \<^verbatim>\<open>currentLocaleChecker\<close> in the returned JSX, title first.\<close>

definition titleCheckerArgs :: "ctx \<Rightarrow> comp_state \<Rightarrow> checker_args" where
  "titleCheckerArgs c st =
     \<lparr> name = ''title'',
       value_shown = actualTitle (currentLocaleMemo c st),
       isMissing = isMissingTitle (currentLocaleMemo c st),
       isRequired = isTitleRequired c,
       isFieldLevel = truthy (fieldLevelTitle c) \<rparr>"

definition altCheckerArgs :: "ctx \<Rightarrow> comp_state \<Rightarrow> checker_args" where
  "altCheckerArgs c st =
     \<lparr> name = ''alt text'',
       value_shown = actualAlt (currentLocaleMemo c st),
       isMissing = isMissingAlt (currentLocaleMemo c st),
       isRequired = isAltRequired c,
       isFieldLevel = truthy (fieldLevelAlt c) \<rparr>"

definition overrideItems :: "ctx \<Rightarrow> li list" where
  "overrideItems c =
     (if truthy (fieldLevelAlt c) then [OverrideAlt (nullish_or (fieldLevelAlt c) [])] else []) @
     (if truthy (fieldLevelTitle c) then [OverrideTitle (nullish_or (fieldLevelTitle c) [])] else [])"

definition mainSections :: "ctx \<Rightarrow> comp_state \<Rightarrow> section_view list" where
  "mainSections c st =
     [CurrentLocale (currentLocaleChecker c st (titleCheckerArgs c st) @
                     currentLocaleChecker c st (altCheckerArgs c st))] @
     (if length (localesMissingAlts (metadataMemo c st)) \<ge> 1
      then [MissingAltText (map NotAtAssetLevel (localesMissingAlts (metadataMemo c st)))] else []) @
     (if length (localesMissingTitles (metadataMemo c st)) \<ge> 1
      then [MissingTitle (map NotAtAssetLevel (localesMissingTitles (metadataMemo c st)))] else []) @
     (if truthy (fieldLevelAlt c) \<or> truthy (fieldLevelTitle c)
      then [FieldLevelOverrides (overrideItems c)] else [])"

section \<open>The component\<close>

text \<open>
  Calls that leave the component: \<^verbatim>\<open>ctx.alert\<close>, \<^verbatim>\<open>ctx.getSettings\<close> and
  \<^verbatim>\<open>client.uploads.find\<close> (the first thing \<^verbatim>\<open>fetchAsset\<close> does).
\<close>

datatype host_call = Alert string | GetSettings | UploadsFind string

definition tokenAlert :: string where
  "tokenAlert = ''The Asset Localization Checker plugin does not have access to your user token. Please check the plugin settings.''"

text \<open>
  One render of the component together with the effects React runs after it. \<open>hooks\<close> is
  what React holds for the instance afterwards: \<open>None\<close> when the render reached no hook,
  on a first render as on a later one (React clears the hooks of an instance before it
  calls the function, and a render that calls none leaves them cleared).
\<close>

record render_result =
  view :: view
  calls :: "host_call list"
  hooks :: "comp_state option"

text \<open>\<^verbatim>\<open>useState<Upload>()\<close> and \<^verbatim>\<open>useState<string[]>([locale])\<close> on the first render.\<close>

definition initialState :: "ctx \<Rightarrow> comp_state" where
  "initialState c =
     \<lparr> assetData = None, siteLocales = [currentLocale c], fetchDep = upload_id (imageField c) \<rparr>"

definition stateOf :: "ctx \<Rightarrow> comp_state option \<Rightarrow> comp_state" where
  "stateOf c h = (case h of None \<Rightarrow> initialState c | Some s \<Rightarrow> s)"

text \<open>
  The effects after a render: on the first one both \<^verbatim>\<open>useEffect\<close> callbacks run (the
  settings lookup, declared first, then the fetch); later only the fetch, and only when
  \<^verbatim>\<open>upload_id\<close> has changed.
\<close>

definition effectsAfter :: "ctx \<Rightarrow> comp_state option \<Rightarrow> host_call list" where
  "effectsAfter c h =
     (case h of
        None \<Rightarrow> [GetSettings, UploadsFind (upload_id (imageField c))]
      | Some s \<Rightarrow>
          (if fetchDep s \<noteq> upload_id (imageField c)
           then [UploadsFind (upload_id (imageField c))] else []))"

text \<open>
  A render that throws: \<^verbatim>\<open>const { upload_id, alt, title } = imageField\<close> on \<^verbatim>\<open>null\<close> or
  \<^verbatim>\<open>undefined\<close> is a \<^verbatim>\<open>TypeError\<close>.
\<close>

datatype error = TypeError

text \<open>The context with another value for \<open>imageField\<close>, the rest as it is.\<close>

definition withImageField :: "'a \<Rightarrow> 'b render_ctx \<Rightarrow> 'a render_ctx" where
  "withImageField v x =
     \<lparr> imageField = v,
       internalLocales = internalLocales x,
       fieldPath = fieldPath x,
       currentUserAccessToken = currentUserAccessToken x,
       label = label x,
       validators = validators x,
       localized = localized x,
       environment = environment x,
       currentLocale = currentLocale x \<rparr>"

text \<open>Lines 72 and 73: the field value is read and destructured, or the render throws.\<close>

definition destructure :: "host_ctx \<Rightarrow> error + ctx" where
  "destructure x =
     (case imageField x of
        None \<Rightarrow> Inl TypeError
      | Some f \<Rightarrow> Inr (withImageField f x))"

text \<open>
  The function component. Without an access token it alerts the host and returns the
  error paragraph before any hook and before the field value is touched. With a token it
  destructures the field value, which throws when there is none; otherwise it shows the
  spinner until \<^verbatim>\<open>isReady\<close>, and the sections after that.
\<close>

definition AssetLocalizationChecker :: "host_ctx \<Rightarrow> comp_state option \<Rightarrow> error + render_result" where
  "AssetLocalizationChecker x h =
     (if \<not> truthy (currentUserAccessToken x) then
        Inr \<lparr> view = TokenError, calls = [Alert tokenAlert], hooks = None \<rparr>
      else
        (case destructure x of
           Inl e \<Rightarrow> Inl e
         | Inr c \<Rightarrow>
             Inr \<lparr> view = (if \<not> isReady c (stateOf c h) then Loading
                          else Sections (mainSections c (stateOf c h))),
                   calls = effectsAfter c h,
                   hooks = Some ((stateOf c h)\<lparr>fetchDep := upload_id (imageField c)\<rparr>) \<rparr>))"

section \<open>The scenarios of the specification\<close>

text \<open>
  Record locales \<^verbatim>\<open>["en","fr"]\<close> and asset metadata \<^verbatim>\<open>{en: {alt: "cat"}, fr: {}}\<close>; the
  field-level alt and the current locale vary.
\<close>

definition scenarioMetadata :: "string \<rightharpoonup> alt_title" where
  "scenarioMetadata =
     [''en'' \<mapsto> \<lparr>alt = Some ''cat'', title = None\<rparr>, ''fr'' \<mapsto> \<lparr>alt = None, title = None\<rparr>]"

definition loadedState :: "(string \<rightharpoonup> alt_title) \<Rightarrow> comp_state" where
  "loadedState m =
     \<lparr> assetData = Some \<lparr>default_field_metadata = Some m, filename = Some ''cat.jpg''\<rparr>,
       siteLocales = [''en'', ''fr''], fetchDep = ''u1'' \<rparr>"

definition scenarioState :: comp_state where
  "scenarioState = loadedState scenarioMetadata"

text \<open>An asset whose metadata has an entry for \<^verbatim>\<open>en\<close> and none for \<^verbatim>\<open>fr\<close>.\<close>

definition englishOnlyMetadata :: "string \<rightharpoonup> alt_title" where
  "englishOnlyMetadata = [''en'' \<mapsto> \<lparr>alt = Some ''cat'', title = Some ''Cat''\<rparr>]"

definition scenarioCtx :: "string option \<Rightarrow> string \<Rightarrow> ctx" where
  "scenarioCtx flAlt loc =
     \<lparr> imageField = \<lparr>alt = flAlt, title = None, upload_id = ''u1''\<rparr>,
       internalLocales = Some [''en'', ''fr''],
       fieldPath = ''hero'',
       currentUserAccessToken = Some ''token'',
       label = ''Hero'',
       validators = \<lparr>required_alt_title = None\<rparr>,
       localized = False,
       environment = None,
       currentLocale = loc \<rparr>"

text \<open>
  Host contexts of the scenario, current locale \<^verbatim>\<open>en\<close>: the field holds the file
  \<^verbatim>\<open>u1\<close> without field-level texts; the field holds no file; the field holds the file
  and the plugin has no access to the user token.
\<close>

definition scenarioHostCtx :: host_ctx where
  "scenarioHostCtx =
     withImageField (Some (imageField (scenarioCtx None ''en''))) (scenarioCtx None ''en'')"

definition emptyFieldCtx :: host_ctx where
  "emptyFieldCtx = withImageField None (scenarioCtx None ''en'')"

definition noTokenCtx :: host_ctx where
  "noTokenCtx = scenarioHostCtx\<lparr>currentUserAccessToken := None\<rparr>"

section \<open>Properties\<close>

subsection \<open>The loop of the first memo\<close>

lemma forOf_alts:
  "localesMissingAlts (forOf m s ls) =
     localesMissingAlts s @ filter (\<lambda>l. \<not> truthy (assetAlt m l)) ls"
  by (induction ls arbitrary: s) (simp_all add: loopBody_def Let_def)

lemma forOf_titles:
  "localesMissingTitles (forOf m s ls) =
     localesMissingTitles s @ filter (\<lambda>l. \<not> truthy (assetTitle m l)) ls"
  by (induction ls arbitrary: s) (simp_all add: loopBody_def Let_def)

lemma forOf_map:
  "assetLevelMetadataByLocale (forOf m s ls) loc =
     (if loc \<in> set ls then Some \<lparr>alt = assetAlt m loc, title = assetTitle m loc\<rparr>
      else assetLevelMetadataByLocale s loc)"
  by (induction ls arbitrary: s) (auto simp add: loopBody_def Let_def)

lemma shapesOf_alts:
  "localesMissingAlts (shapesOf (Some m) (Some ls)) = filter (\<lambda>l. \<not> truthy (assetAlt m l)) ls"
  by (simp add: shapesOf_def forOf_alts emptyShapes_def)

lemma shapesOf_titles:
  "localesMissingTitles (shapesOf (Some m) (Some ls)) =
     filter (\<lambda>l. \<not> truthy (assetTitle m l)) ls"
  by (simp add: shapesOf_def forOf_titles emptyShapes_def)

lemma shapesOf_map:
  "assetLevelMetadataByLocale (shapesOf (Some m) (Some ls)) loc =
     (if loc \<in> set ls then Some \<lparr>alt = assetAlt m loc, title = assetTitle m loc\<rparr> else None)"
  by (simp add: shapesOf_def forOf_map emptyShapes_def)

lemma shapesOf_absent: "md = None \<or> locs = None \<Longrightarrow> shapesOf md locs = emptyShapes"
  by (auto simp add: shapesOf_def split: option.splits)

lemma scenario_shapes:
  "metadataMemo (scenarioCtx fl loc) scenarioState =
     \<lparr> assetLevelMetadataByLocale = scenarioMetadata,
       localesMissingAlts = [''fr''], localesMissingTitles = [''en'', ''fr''] \<rparr>"
  by (simp add: metadataMemo_def metadata_def localesInThisRecord_def scenarioCtx_def
      scenarioState_def loadedState_def shapesOf_def emptyShapes_def loopBody_def assetAlt_def
      assetTitle_def scenarioMetadata_def truthy_def Let_def)

subsection \<open>The aggregate lists follow the record's locales\<close>

text \<open>
  C5. For every asset metadata map \<open>m\<close> and every sequence \<open>ls\<close> of record locales, the
  lists \<open>localesMissingAlts\<close> and \<open>localesMissingTitles\<close> hold only locales of \<open>ls\<close> and
  keep their relative order: each is a subsequence of \<open>ls\<close>.
\<close>

theorem missing_lists_subseq_of_record_locales:
  "subseq (localesMissingAlts (shapesOf (Some m) (Some ls))) ls \<and>
   subseq (localesMissingTitles (shapesOf (Some m) (Some ls))) ls \<and>
   set (localesMissingAlts (shapesOf (Some m) (Some ls))) \<subseteq> set ls \<and>
   set (localesMissingTitles (shapesOf (Some m) (Some ls))) \<subseteq> set ls"
  by (auto simp add: shapesOf_alts shapesOf_titles)

subsection \<open>The list-based revision computes the same missing locales\<close>

lemma metadataByLocale_map:
  "metadataByLocale (Some m) (Some ls) =
     map (\<lambda>loc. \<lparr>alt = assetAlt m loc, title = assetTitle m loc, locale_code = loc\<rparr>) ls"
  by (induction ls) (simp_all add: metadataByLocale_def)

lemma missingAlts_codes:
  "map locale_code (missingAlts (metadataByLocale (Some m) (Some ls))) =
     filter (\<lambda>l. \<not> truthy (assetAlt m l)) ls"
  unfolding metadataByLocale_map missingAlts_def by (induction ls) simp_all

lemma missingTitles_codes:
  "map locale_code (missingTitles (metadataByLocale (Some m) (Some ls))) =
     filter (\<lambda>l. \<not> truthy (assetTitle m l)) ls"
  unfolding metadataByLocale_map missingTitles_def by (induction ls) simp_all

text \<open>
  C10. Whatever the asset metadata and the record locales are (present or not), the locale
  codes of \<open>missingAlts\<close> and \<open>missingTitles\<close> of the list-based revision are the
  sequences \<open>localesMissingAlts\<close> and \<open>localesMissingTitles\<close> of the Map-based one.
\<close>

theorem list_revision_same_missing_locales:
  "map locale_code (missingAlts (metadataByLocale md locs)) =
     localesMissingAlts (shapesOf md locs) \<and>
   map locale_code (missingTitles (metadataByLocale md locs)) =
     localesMissingTitles (shapesOf md locs)"
proof (cases md)
  case None
  then show ?thesis
    by (simp add: metadataByLocale_def missingAlts_def missingTitles_def shapesOf_def
        emptyShapes_def)
next
  case md: (Some m)
  show ?thesis
  proof (cases locs)
    case None
    with md show ?thesis
      by (simp add: metadataByLocale_def missingAlts_def missingTitles_def shapesOf_def
          emptyShapes_def)
  next
    case (Some ls)
    with md show ?thesis
      by (simp add: missingAlts_codes missingTitles_codes shapesOf_alts shapesOf_titles)
  qed
qed

subsection \<open>The scenarios\<close>

lemma memo_loaded:
  assumes "metadata st = Some m" and "localesInThisRecord c = Some ls"
  shows "metadataMemo c st = shapesOf (Some m) (Some ls)"
  using assms by (simp add: metadataMemo_def)

lemma scenario_lookup:
  "currentLocaleMemo (scenarioCtx fl loc) scenarioState =
     lookupLocale scenarioMetadata fl None loc"
  unfolding currentLocaleMemo_def scenario_shapes
  by (simp add: fieldLevelAlt_def fieldLevelTitle_def scenarioCtx_def)

lemmas lookup_defs = lookupLocale_def scenarioMetadata_def truthy_def nullish_def nullish_or_def

text \<open>
  C6. With record locales \<^verbatim>\<open>["en","fr"]\<close>, asset metadata
  \<^verbatim>\<open>{en: {alt: "cat"}, fr: {}}\<close> and no field-level value, \<open>localesMissingAlts\<close> is
  \<^verbatim>\<open>["fr"]\<close> and the effective alt of \<^verbatim>\<open>en\<close> is \<^verbatim>\<open>"cat"\<close>.
\<close>

theorem scenario_without_override:
  "localesMissingAlts (metadataMemo (scenarioCtx None ''en'') scenarioState) = [''fr''] \<and>
   actualAlt (currentLocaleMemo (scenarioCtx None ''en'') scenarioState) = ''cat''"
  by (simp add: scenario_shapes scenario_lookup lookup_defs)

text \<open>
  C1, as the specification states it, fails: with the field-level alt \<^verbatim>\<open>"override"\<close> the
  effective alt is \<^verbatim>\<open>"override"\<close> for \<^verbatim>\<open>en\<close> and for \<^verbatim>\<open>fr\<close>, but
  \<open>localesMissingAlts\<close> is not empty. The loop that fills it reads the asset's metadata
  only, and the section it feeds says that a locale has no alt text
  \<^emph>\<open>at the asset level\<close>; the override has a section of its own.
\<close>

theorem scenario_with_override_list_not_empty:
  "\<not> (actualAlt (currentLocaleMemo (scenarioCtx (Some ''override'') ''en'') scenarioState)
        = ''override'' \<and>
      actualAlt (currentLocaleMemo (scenarioCtx (Some ''override'') ''fr'') scenarioState)
        = ''override'' \<and>
      localesMissingAlts (metadataMemo (scenarioCtx (Some ''override'') ''en'') scenarioState)
        = [] \<and>
      localesMissingAlts (metadataMemo (scenarioCtx (Some ''override'') ''fr'') scenarioState)
        = [])"
  by (simp add: scenario_shapes)

text \<open>
  C1, amended. With the field-level alt \<^verbatim>\<open>"override"\<close> the effective alt is
  \<^verbatim>\<open>"override"\<close> for \<^verbatim>\<open>en\<close> and for \<^verbatim>\<open>fr\<close> and \<open>isMissingAlt\<close> is false for both, while
  \<open>localesMissingAlts\<close>, which lists the locales without alt text at the asset level,
  remains \<^verbatim>\<open>["fr"]\<close>.
\<close>

theorem scenario_with_override:
  "actualAlt (currentLocaleMemo (scenarioCtx (Some ''override'') ''en'') scenarioState)
     = ''override'' \<and>
   actualAlt (currentLocaleMemo (scenarioCtx (Some ''override'') ''fr'') scenarioState)
     = ''override'' \<and>
   \<not> isMissingAlt (currentLocaleMemo (scenarioCtx (Some ''override'') ''en'') scenarioState) \<and>
   \<not> isMissingAlt (currentLocaleMemo (scenarioCtx (Some ''override'') ''fr'') scenarioState) \<and>
   localesMissingAlts (metadataMemo (scenarioCtx (Some ''override'') ''en'') scenarioState)
     = [''fr''] \<and>
   localesMissingAlts (metadataMemo (scenarioCtx (Some ''override'') ''fr'') scenarioState)
     = [''fr'']"
  by (simp add: scenario_shapes scenario_lookup lookup_defs)

subsection \<open>Required-ness does not change what is missing\<close>

text \<open>
  C4. Two runs whose contexts differ in the validators only compute the same
  \<open>isMissingAlt\<close> and \<open>isMissingTitle\<close> and the same lists \<open>localesMissingAlts\<close> and
  \<open>localesMissingTitles\<close>.
\<close>

theorem required_flags_do_not_change_missing:
  "isMissingAlt (currentLocaleMemo (c\<lparr>validators := v\<rparr>) st) =
     isMissingAlt (currentLocaleMemo c st) \<and>
   isMissingTitle (currentLocaleMemo (c\<lparr>validators := v\<rparr>) st) =
     isMissingTitle (currentLocaleMemo c st) \<and>
   localesMissingAlts (metadataMemo (c\<lparr>validators := v\<rparr>) st) =
     localesMissingAlts (metadataMemo c st) \<and>
   localesMissingTitles (metadataMemo (c\<lparr>validators := v\<rparr>) st) =
     localesMissingTitles (metadataMemo c st)"
  by (simp add: currentLocaleMemo_def metadataMemo_def localesInThisRecord_def
      fieldLevelAlt_def fieldLevelTitle_def)

subsection \<open>A record locale without asset metadata\<close>

text \<open>
  C3, as the specification states it, fails: \<^verbatim>\<open>fr\<close> is a locale of the record with no
  entry in the asset's metadata, and with the field-level alt \<^verbatim>\<open>"override"\<close> the lookup
  of \<^verbatim>\<open>fr\<close> does not report a missing alt, since \<open>isMissingAlt\<close> is
  \<^verbatim>\<open>!fieldLevelAlt && !alt\<close>.
\<close>

theorem unlisted_locale_with_override_not_missing:
  "''fr'' \<in> set [''en'', ''fr''] \<and> englishOnlyMetadata ''fr'' = None \<and>
   metadata (loadedState englishOnlyMetadata) = Some englishOnlyMetadata \<and>
   localesInThisRecord (scenarioCtx (Some ''override'') ''fr'') = Some [''en'', ''fr''] \<and>
   \<not> isMissingAlt (currentLocaleMemo (scenarioCtx (Some ''override'') ''fr'')
        (loadedState englishOnlyMetadata))"
  by (simp add: englishOnlyMetadata_def metadata_def loadedState_def localesInThisRecord_def
      currentLocaleMemo_def metadataMemo_def shapesOf_map lookupLocale_def fieldLevelAlt_def
      scenarioCtx_def truthy_def)

text \<open>
  C3, amended. For every locale \<open>loc\<close> of the record's locales \<open>ls\<close> that has no entry in
  the asset metadata \<open>m\<close>, the locale is in both aggregate lists, and its lookup reports
  \<open>isMissingAlt\<close> (resp. \<open>isMissingTitle\<close>) exactly when there is no non-empty
  field-level alt (resp. title): always, when no field-level value is set.
\<close>

theorem unlisted_locale_missing:
  assumes "loc \<in> set ls" and "m loc = None"
  shows "isMissingAlt (lookupLocale (assetLevelMetadataByLocale (shapesOf (Some m) (Some ls)))
            flAlt flTitle loc) = (\<not> truthy flAlt) \<and>
         isMissingTitle (lookupLocale (assetLevelMetadataByLocale (shapesOf (Some m) (Some ls)))
            flAlt flTitle loc) = (\<not> truthy flTitle) \<and>
         loc \<in> set (localesMissingAlts (shapesOf (Some m) (Some ls))) \<and>
         loc \<in> set (localesMissingTitles (shapesOf (Some m) (Some ls)))"
  using assms
  by (simp add: lookupLocale_def shapesOf_map shapesOf_alts shapesOf_titles assetAlt_def
      assetTitle_def truthy_def)

text \<open>
  The amended C3 at \<^verbatim>\<open>fr\<close>, record locales \<^verbatim>\<open>["en","fr"]\<close>, metadata for \<^verbatim>\<open>en\<close> only
  and no field-level value.
\<close>

theorem unlisted_locale_missing_witness:
  "''fr'' \<in> set [''en'', ''fr''] \<and> englishOnlyMetadata ''fr'' = None \<and>
   isMissingAlt (lookupLocale
      (assetLevelMetadataByLocale (shapesOf (Some englishOnlyMetadata) (Some [''en'', ''fr''])))
      None None ''fr'') \<and>
   isMissingTitle (lookupLocale
      (assetLevelMetadataByLocale (shapesOf (Some englishOnlyMetadata) (Some [''en'', ''fr''])))
      None None ''fr'') \<and>
   ''fr'' \<in> set (localesMissingAlts (shapesOf (Some englishOnlyMetadata) (Some [''en'', ''fr'']))) \<and>
   ''fr'' \<in> set (localesMissingTitles (shapesOf (Some englishOnlyMetadata) (Some [''en'', ''fr''])))"
proof -
  have listed: "''fr'' \<in> set [''en'', ''fr'']"
    by simp
  have absent: "englishOnlyMetadata ''fr'' = None"
    by (simp add: englishOnlyMetadata_def)
  from unlisted_locale_missing
      [of "''fr''" "[''en'', ''fr'']" englishOnlyMetadata None None, OF listed absent]
    listed absent
  show ?thesis by (simp add: truthy_def)
qed

subsection \<open>Before the asset has loaded\<close>

lemma withImageField_sel:
  "imageField (withImageField v x) = v"
  "internalLocales (withImageField v x) = internalLocales x"
  "currentUserAccessToken (withImageField v x) = currentUserAccessToken x"
  "currentLocale (withImageField v x) = currentLocale x"
  by (simp_all add: withImageField_def)

text \<open>
  Where the component has its access token and the field holds a file value \<open>f\<close>,
  whenever the asset data, its metadata map or the list of record locales is absent, the
  first memo yields nothing (an empty map and two empty lists) and the component renders
  the spinner, not the sections. \<open>h\<close> is what React holds for the instance: \<open>None\<close> on the
  first render, when the asset has not been fetched yet.
\<close>

lemma loading_until_ready:
  assumes "truthy (currentUserAccessToken x)"
    and "imageField x = Some f"
    and "assetData (stateOf (withImageField f x) h) = None \<or>
         metadata (stateOf (withImageField f x) h) = None \<or>
         localesInThisRecord (withImageField f x) = None"
  shows "assetLevelMetadataByLocale
           (metadataMemo (withImageField f x) (stateOf (withImageField f x) h)) = Map.empty \<and>
         localesMissingAlts
           (metadataMemo (withImageField f x) (stateOf (withImageField f x) h)) = [] \<and>
         localesMissingTitles
           (metadataMemo (withImageField f x) (stateOf (withImageField f x) h)) = [] \<and>
         (\<exists>r. AssetLocalizationChecker x h = Inr r \<and> view r = Loading)"
proof -
  let ?c = "withImageField f x"
  from assms(3) have absent: "metadata (stateOf ?c h) = None \<or> localesInThisRecord ?c = None"
    by (auto simp add: metadata_def)
  then have "metadataMemo ?c (stateOf ?c h) = emptyShapes"
    unfolding metadataMemo_def by (rule shapesOf_absent)
  moreover from absent have "\<not> isReady ?c (stateOf ?c h)"
    by (auto simp add: isReady_def)
  ultimately show ?thesis
    using assms(1,2) by (simp add: emptyShapes_def AssetLocalizationChecker_def destructure_def)
qed

lemma scenario_first_render_loading:
  "\<exists>r. AssetLocalizationChecker scenarioHostCtx None = Inr r \<and> view r = Loading"
proof -
  have tok: "truthy (currentUserAccessToken scenarioHostCtx)"
    by (simp add: scenarioHostCtx_def withImageField_sel scenarioCtx_def truthy_def)
  have fld: "imageField scenarioHostCtx = Some (imageField (scenarioCtx None ''en''))"
    by (simp add: scenarioHostCtx_def withImageField_sel)
  have unloaded:
    "assetData (stateOf (withImageField (imageField (scenarioCtx None ''en'')) scenarioHostCtx)
       None) = None"
    by (simp add: stateOf_def initialState_def)
  from loading_until_ready [OF tok fld disjI1, OF unloaded] show ?thesis
    by simp
qed

text \<open>
  C7 at a file field that holds no file, on the first render, the access token present:
  the asset has not loaded (there is no state yet, and the state a first render starts
  from has no asset data), and the render throws at the destructuring of line 73, before
  it reaches the spinner of lines 204 to 210.
\<close>

theorem empty_field_throws_before_loading:
  "truthy (currentUserAccessToken emptyFieldCtx) \<and>
   imageField emptyFieldCtx = None \<and>
   internalLocales emptyFieldCtx = Some [''en'', ''fr''] \<and>
   AssetLocalizationChecker emptyFieldCtx None = Inl TypeError"
proof -
  have tok: "truthy (currentUserAccessToken emptyFieldCtx)"
    by (simp add: emptyFieldCtx_def withImageField_sel scenarioCtx_def truthy_def)
  have fld: "imageField emptyFieldCtx = None"
    by (simp add: emptyFieldCtx_def withImageField_sel)
  have locs: "internalLocales emptyFieldCtx = Some [''en'', ''fr'']"
    by (simp add: emptyFieldCtx_def withImageField_sel scenarioCtx_def)
  have thrown: "AssetLocalizationChecker emptyFieldCtx None = Inl TypeError"
    using tok fld by (simp add: AssetLocalizationChecker_def destructure_def)
  from tok fld locs thrown show ?thesis
    by simp
qed

subsection \<open>Without an access token\<close>

text \<open>
  C8. When the context provides no user access token (none, or an empty one: what
  \<^verbatim>\<open>!currentUserAccessToken\<close> tests), the render returns the error paragraph, its only
  call is the host alert, so that neither the settings lookup nor the fetch of the asset is
  issued, and no hook is reached: React holds no state for the instance afterwards,
  whatever it held before (\<open>h\<close>) and whatever the field holds.
\<close>

theorem no_token_error_and_alert_only:
  assumes "\<not> truthy (currentUserAccessToken x)"
  shows "\<exists>r. AssetLocalizationChecker x h = Inr r \<and>
           view r = TokenError \<and>
           calls r = [Alert tokenAlert] \<and>
           hooks r = None \<and>
           GetSettings \<notin> set (calls r) \<and>
           (\<forall>uid. UploadsFind uid \<notin> set (calls r))"
  using assms by (simp add: AssetLocalizationChecker_def)

text \<open>
  C8 on a context whose token is absent, on a first render and on a render of an instance
  that held the loaded asset.
\<close>

theorem no_token_error_and_alert_only_witness:
  "currentUserAccessToken noTokenCtx = None \<and>
   AssetLocalizationChecker noTokenCtx None =
     Inr \<lparr>view = TokenError, calls = [Alert tokenAlert], hooks = None\<rparr> \<and>
   AssetLocalizationChecker noTokenCtx (Some scenarioState) =
     Inr \<lparr>view = TokenError, calls = [Alert tokenAlert], hooks = None\<rparr>"
proof -
  have tok: "currentUserAccessToken noTokenCtx = None"
    by (simp add: noTokenCtx_def)
  then have falsy: "\<not> truthy (currentUserAccessToken noTokenCtx)"
    by (simp add: truthy_def)
  from no_token_error_and_alert_only [OF falsy, of None]
    no_token_error_and_alert_only [OF falsy, of "Some scenarioState"] tok
  show ?thesis by auto
qed

subsection \<open>An empty field-level value\<close>

text \<open>
  Where the current locale is a locale of the record, the effective values are what the
  chains \<^verbatim>\<open>fieldLevelAlt ?? alt ?? ""\<close> and \<^verbatim>\<open>fieldLevelTitle ?? title ?? ""\<close> give.
\<close>

lemma actual_resolution:
  assumes "metadata st = Some m" and "localesInThisRecord c = Some ls"
    and "currentLocale c \<in> set ls"
  shows "actualAlt (currentLocaleMemo c st) =
           (case fieldLevelAlt c of Some v \<Rightarrow> v
            | None \<Rightarrow> (case assetAlt m (currentLocale c) of Some a \<Rightarrow> a | None \<Rightarrow> []))"
    and "actualTitle (currentLocaleMemo c st) =
           (case fieldLevelTitle c of Some v \<Rightarrow> v
            | None \<Rightarrow> (case assetTitle m (currentLocale c) of Some a \<Rightarrow> a | None \<Rightarrow> []))"
  using assms
  by (simp_all add: currentLocaleMemo_def memo_loaded shapesOf_map lookupLocale_def
      nullish_def nullish_or_def split: option.splits)

text \<open>
  C9. Whenever the field-level alt is the empty string and the asset has a non-empty alt
  for the current locale (a locale of the record), the effective alt is the empty string,
  kept by the nullish chain, while \<open>isMissingAlt\<close> is false and the indicator
  \<open>isFieldLevel\<close>, computed by truthiness, is false too.
\<close>

theorem empty_override_judged_inconsistently:
  assumes "fieldLevelAlt c = Some []"
    and "metadata st = Some m" and "localesInThisRecord c = Some ls"
    and "currentLocale c \<in> set ls" and "truthy (assetAlt m (currentLocale c))"
  shows "actualAlt (currentLocaleMemo c st) = [] \<and>
         \<not> isMissingAlt (currentLocaleMemo c st) \<and>
         \<not> isFieldLevel (altCheckerArgs c st)"
  using assms
  by (simp add: currentLocaleMemo_def memo_loaded shapesOf_map lookupLocale_def
      altCheckerArgs_def nullish_def nullish_or_def truthy_def)

text \<open>
  C9 on the scenario with the field-level alt \<^verbatim>\<open>""\<close> and the current locale \<^verbatim>\<open>en\<close>,
  whose asset-level alt is \<^verbatim>\<open>"cat"\<close>: such an input exists.
\<close>

theorem empty_override_judged_inconsistently_witness:
  "fieldLevelAlt (scenarioCtx (Some []) ''en'') = Some [] \<and>
   assetAlt scenarioMetadata ''en'' = Some ''cat'' \<and>
   actualAlt (currentLocaleMemo (scenarioCtx (Some []) ''en'') scenarioState) = [] \<and>
   \<not> isMissingAlt (currentLocaleMemo (scenarioCtx (Some []) ''en'') scenarioState) \<and>
   \<not> isFieldLevel (altCheckerArgs (scenarioCtx (Some []) ''en'') scenarioState)"
proof -
  have fl: "fieldLevelAlt (scenarioCtx (Some []) ''en'') = Some []"
    by (simp add: fieldLevelAlt_def scenarioCtx_def)
  have md: "metadata scenarioState = Some scenarioMetadata"
    by (simp add: metadata_def scenarioState_def loadedState_def)
  have ls: "localesInThisRecord (scenarioCtx (Some []) ''en'') = Some [''en'', ''fr'']"
    by (simp add: localesInThisRecord_def scenarioCtx_def)
  have mem: "currentLocale (scenarioCtx (Some []) ''en'') \<in> set [''en'', ''fr'']"
    by (simp add: scenarioCtx_def)
  have asset: "assetAlt scenarioMetadata ''en'' = Some ''cat''"
    by (simp add: assetAlt_def scenarioMetadata_def)
  have cur: "currentLocale (scenarioCtx (Some []) ''en'') = ''en''"
    by (simp add: scenarioCtx_def)
  have tr: "truthy (assetAlt scenarioMetadata (currentLocale (scenarioCtx (Some []) ''en'')))"
    by (simp add: cur asset truthy_def)
  from empty_override_judged_inconsistently [OF fl md ls mem tr] fl asset
  show ?thesis by simp
qed

text \<open>
  C2 at the same input, as far as the rendered item: the field-level alt \<^verbatim>\<open>""\<close> is
  present for the nullish chain, so the effective alt is \<^verbatim>\<open>""\<close> and not the asset's
  \<^verbatim>\<open>"cat"\<close>; it is absent for \<^verbatim>\<open>!!fieldLevelAlt\<close>, so the value is not marked as
  field-level, and the item shown is the one that says the alt text is set in the asset
  \<^verbatim>\<open>cat.jpg\<close>, with the empty value.
\<close>

theorem empty_override_shown_as_asset_value:
  "fieldLevelAlt (scenarioCtx (Some []) ''en'') = Some [] \<and>
   assetAlt scenarioMetadata ''en'' = Some ''cat'' \<and>
   actualAlt (currentLocaleMemo (scenarioCtx (Some []) ''en'') scenarioState) = [] \<and>
   isFieldLevel (altCheckerArgs (scenarioCtx (Some []) ''en'') scenarioState) = False \<and>
   currentLocaleChecker (scenarioCtx (Some []) ''en'') scenarioState
     (altCheckerArgs (scenarioCtx (Some []) ''en'') scenarioState) =
     [SetInAsset ''alt text'' (Some ''cat.jpg'') []]"
proof -
  have lk: "currentLocaleMemo (scenarioCtx (Some []) ''en'') scenarioState =
      \<lparr>isMissingAlt = False, isMissingTitle = True, actualAlt = [], actualTitle = []\<rparr>"
    by (simp add: scenario_lookup lookup_defs)
  have fl: "fieldLevelAlt (scenarioCtx (Some []) ''en'') = Some []"
    by (simp add: fieldLevelAlt_def scenarioCtx_def)
  have fname: "shownFilename scenarioState = Some ''cat.jpg''"
    by (simp add: shownFilename_def scenarioState_def loadedState_def truthy_def)
  have asset: "assetAlt scenarioMetadata ''en'' = Some ''cat''"
    by (simp add: assetAlt_def scenarioMetadata_def)
  show ?thesis
    by (simp add: currentLocaleChecker_def altCheckerArgs_def lk fl fname asset truthy_def)
qed

end
